theory Spec2Isabelle
  imports Main "HOL-Library.AList"
begin

section \<open>Values, exceptions and the service interface\<close>

text \<open>
  \<^verbatim>\<open>Forum.py\<close> is a thin facade over a DynamoDB table resource. The values that
  travel through it are Python values: strings, unbounded integers, \<^verbatim>\<open>Decimal\<close>
  numbers (sign, coefficient, exponent: the value is the coefficient times ten to the
  exponent), binary floats (mantissa and exponent: the mantissa times two to the
  exponent), lists and dictionaries. A dictionary is an association list in insertion
  order, as Python keeps it; an item of the table is a dictionary from attribute
  names to values.
\<close>

datatype pyval =
    PyNone
  | PyBool bool
  | PyInt int
  | PyDecimal bool nat int
  | PyFloat int int
  | PyStr string
  | PyList "pyval list"
  | PyDict "(string \<times> pyval) list"

type_synonym item = "(string \<times> pyval) list"

text \<open>
  \<^verbatim>\<open>err.response['Error']\<close> of a botocore \<^verbatim>\<open>ClientError\<close>: the code and the
  message the handlers log.
\<close>

record client_error =
  Code :: string
  Message :: string

text \<open>
  The exceptions that can leave a method of the class: the \<^verbatim>\<open>ClientError\<close> every
  handler catches, logs and re-raises; \<^verbatim>\<open>KeyError\<close> from subscripting a response
  that lacks the field; \<^verbatim>\<open>AttributeError\<close> from calling a method on
  \<^verbatim>\<open>self.table\<close> while it is \<^verbatim>\<open>None\<close>; \<^verbatim>\<open>FileNotFoundError\<close> from
  \<^verbatim>\<open>open\<close>; and the \<^verbatim>\<open>WaiterError\<close> (with its reason) that a waiter raises when
  what it waits for does not come about. A \<^verbatim>\<open>WaiterError\<close> is not a
  \<^verbatim>\<open>ClientError\<close>.
\<close>

datatype exn =
    ClientError client_error
  | KeyError string
  | AttributeError string
  | FileNotFoundError string
  | WaiterError string

text \<open>The responses the methods read fields of. A field a response may lack is an option.\<close>

record get_item_response =
  Item :: "item option"

record scan_response =
  Items :: "item list option"
  LastEvaluatedKey :: "item option"

record update_item_response =
  Attributes :: "item option"

text \<open>The keyword arguments of the two calls that take more than a key or an item.\<close>

record create_table_request =
  TableName :: string
  KeySchema :: "(string \<times> string) list list"
  AttributeDefinitions :: "(string \<times> string) list list"
  ProvisionedThroughput :: "(string \<times> nat) list"

record update_item_request =
  Key :: item
  UpdateExpression :: string
  ExpressionAttributeValues :: item
  ExpressionAttributeNames :: "(string \<times> string) list"
  ReturnValues :: string

text \<open>
  The remote service is not part of the repository: it is a parameter. A call takes
  the state \<open>'r\<close> of the world behind the client and returns either the
  \<^verbatim>\<open>ClientError\<close> the client raised or the response, with the new state. A table
  resource is identified by its name, so every method of a table takes the name first.
  \<^verbatim>\<open>wait_until_exists\<close> is a waiter: it polls, and when it gives up it raises a
  \<^verbatim>\<open>WaiterError\<close> with a reason, never a \<^verbatim>\<open>ClientError\<close>. The batch writer sends
  its requests when the \<^verbatim>\<open>with\<close> block ends; for an empty list it sends none.
\<close>

type_synonym ('a, 'r) call = "'r \<Rightarrow> (client_error + 'a) \<times> 'r"

record 'r dynamodb =
  Table_load :: "string \<Rightarrow> (unit, 'r) call"
  create_table_call :: "create_table_request \<Rightarrow> (unit, 'r) call"
  Table_wait_until_exists :: "string \<Rightarrow> 'r \<Rightarrow> (string + unit) \<times> 'r"
  Table_batch_writer :: "string \<Rightarrow> item list \<Rightarrow> (unit, 'r) call"
  Table_get_item :: "string \<Rightarrow> item \<Rightarrow> (get_item_response, 'r) call"
  Table_scan :: "string \<Rightarrow> (string \<times> item) list \<Rightarrow> (scan_response, 'r) call"
  Table_put_item :: "string \<Rightarrow> item \<Rightarrow> (unit, 'r) call"
  Table_update_item :: "string \<Rightarrow> update_item_request \<Rightarrow> (update_item_response, 'r) call"
  Table_delete_item :: "string \<Rightarrow> item \<Rightarrow> (unit, 'r) call"
  Table_delete :: "string \<Rightarrow> (unit, 'r) call"

section \<open>The class Forum\<close>

text \<open>
  \<^verbatim>\<open>self.table\<close> is \<^verbatim>\<open>None\<close> or a table resource (its name). The state a method
  can change is that field, the world behind the client, the records handed to
  \<^verbatim>\<open>logger.error\<close> (format string and arguments) and the lines printed.
\<close>

record 'r forum =
  table :: "string option"
  remote :: 'r
  log :: "(string \<times> string list) list"
  stdout :: "string list"

definition logger_error :: "string \<Rightarrow> string list \<Rightarrow> 'r forum \<Rightarrow> 'r forum" where
  "logger_error fmt args self = self\<lparr>log := log self @ [(fmt, args)]\<rparr>"


definition init :: "'r \<Rightarrow> 'r forum" where
  "init r = \<lparr>table = None, remote = r, log = [], stdout = []\<rparr>"

text \<open>
  \<^verbatim>\<open>exists\<close>: the assignment to \<^verbatim>\<open>self.table\<close> stands in the \<^verbatim>\<open>else\<close> branch of
  the \<^verbatim>\<open>try\<close>, so it runs only when \<^verbatim>\<open>load\<close> raised nothing.
\<close>

definition exists :: "'r dynamodb \<Rightarrow> string \<Rightarrow> 'r forum \<Rightarrow> (exn + bool) \<times> 'r forum" where
  "exists svc table_name self =
     (case Table_load svc table_name (remote self) of
        (Inl err, r) \<Rightarrow>
          if Code err = ''ResourceNotFoundException''
          then (Inr False, self\<lparr>remote := r\<rparr>)
          else (Inl (ClientError err),
                logger_error ''Couldn't check for existence of %s. Here's why: %s: %s''
                  [table_name, Code err, Message err] (self\<lparr>remote := r\<rparr>))
      | (Inr _, r) \<Rightarrow> (Inr True, self\<lparr>remote := r, table := Some table_name\<rparr>))"

text \<open>
  \<^verbatim>\<open>create_table\<close> assigns \<^verbatim>\<open>self.table\<close> as soon as the create call returns, then
  waits. The wait stands inside the \<^verbatim>\<open>try\<close>, but what it raises is a
  \<^verbatim>\<open>WaiterError\<close>, which \<^verbatim>\<open>except ClientError\<close> does not catch: it leaves the
  method as it is, with nothing logged. The method returns the table resource (its
  name).
\<close>

definition create_table :: "'r dynamodb \<Rightarrow> string \<Rightarrow> 'r forum \<Rightarrow> (exn + string) \<times> 'r forum" where
  "create_table svc table_name self =
     (case create_table_call svc
             \<lparr>TableName = table_name,
              KeySchema = [[(''AttributeName'', ''Name''), (''KeyType'', ''HASH'')]],
              AttributeDefinitions = [[(''AttributeName'', ''Name''), (''AttributeType'', ''S'')]],
              ProvisionedThroughput = [(''ReadCapacityUnits'', 10), (''WriteCapacityUnits'', 5)]\<rparr>
             (remote self) of
        (Inl err, r) \<Rightarrow>
          (Inl (ClientError err),
           logger_error ''Couldn't create table %s. Here's why: %s: %s''
             [table_name, Code err, Message err] (self\<lparr>remote := r\<rparr>))
      | (Inr _, r) \<Rightarrow>
          (case Table_wait_until_exists svc table_name r of
             (Inl reason, r') \<Rightarrow>
               (Inl (WaiterError reason), self\<lparr>remote := r', table := Some table_name\<rparr>)
           | (Inr _, r') \<Rightarrow> (Inr table_name, self\<lparr>remote := r', table := Some table_name\<rparr>)))"

definition write_batch :: "'r dynamodb \<Rightarrow> item list \<Rightarrow> 'r forum \<Rightarrow> (exn + unit) \<times> 'r forum" where
  "write_batch svc forums self =
     (case table self of
        None \<Rightarrow> (Inl (AttributeError ''batch_writer''), self)
      | Some tn \<Rightarrow>
          (case Table_batch_writer svc tn forums (remote self) of
             (Inl err, r) \<Rightarrow>
               (Inl (ClientError err),
                logger_error ''Couldn't load data into table %s. Here's why: %s: %s''
                  [tn, Code err, Message err] (self\<lparr>remote := r\<rparr>))
           | (Inr _, r) \<Rightarrow> (Inr (), self\<lparr>remote := r\<rparr>)))"

text \<open>\<^verbatim>\<open>get_forum\<close> subscripts the response: \<^verbatim>\<open>response['Item']\<close>.\<close>

definition get_forum :: "'r dynamodb \<Rightarrow> string \<Rightarrow> 'r forum \<Rightarrow> (exn + item) \<times> 'r forum" where
  "get_forum svc name self =
     (case table self of
        None \<Rightarrow> (Inl (AttributeError ''get_item''), self)
      | Some tn \<Rightarrow>
          (case Table_get_item svc tn [(''Name'', PyStr name)] (remote self) of
             (Inl err, r) \<Rightarrow>
               (Inl (ClientError err),
                logger_error ''Couldn't get forum %s from table %s. Here's why: %s: %s''
                  [name, tn, Code err, Message err] (self\<lparr>remote := r\<rparr>))
           | (Inr response, r) \<Rightarrow>
               (case Item response of
                  None \<Rightarrow> (Inl (KeyError ''Item''), self\<lparr>remote := r\<rparr>)
                | Some it \<Rightarrow> (Inr it, self\<lparr>remote := r\<rparr>))))"

text \<open>
  The loop of \<^verbatim>\<open>scan_forums\<close>. \<^verbatim>\<open>if start_key:\<close> tests truth, so an empty
  dictionary counts as no key there, while \<^verbatim>\<open>done = start_key is None\<close> tests
  identity with \<^verbatim>\<open>None\<close>. The loop has no bound of its own: not returning is the
  value \<open>None\<close>.
\<close>

definition truthy :: "item option \<Rightarrow> bool" where
  "truthy start_key = (case start_key of None \<Rightarrow> False | Some k \<Rightarrow> k \<noteq> [])"

partial_function (option) scan_loop ::
  "'r dynamodb \<Rightarrow> string \<Rightarrow> (string \<times> item) list \<Rightarrow> item list \<Rightarrow> item option \<Rightarrow> 'r forum
    \<Rightarrow> ((exn + item list) \<times> 'r forum) option" where
  "scan_loop svc tn scan_kwargs forums start_key self =
     (let scan_kwargs' =
            (if truthy start_key
             then AList.update ''ExclusiveStartKey'' (the start_key) scan_kwargs
             else scan_kwargs)
      in case Table_scan svc tn scan_kwargs' (remote self) of
           (Inl err, r) \<Rightarrow>
             Some (Inl (ClientError err),
                   logger_error ''Couldn't scan for forums. Here's why: %s: %s''
                     [Code err, Message err] (self\<lparr>remote := r\<rparr>))
         | (Inr response, r) \<Rightarrow>
             (let forums' = forums @ (case Items response of None \<Rightarrow> [] | Some its \<Rightarrow> its);
                  start_key' = LastEvaluatedKey response
              in if start_key' = None
                 then Some (Inr forums', self\<lparr>remote := r\<rparr>)
                 else scan_loop svc tn scan_kwargs' forums' start_key' (self\<lparr>remote := r\<rparr>)))"

declare scan_loop.simps [code]

definition scan_forums :: "'r dynamodb \<Rightarrow> 'r forum \<Rightarrow> ((exn + item list) \<times> 'r forum) option" where
  "scan_forums svc self =
     (case table self of
        None \<Rightarrow> Some (Inl (AttributeError ''scan''), self)
      | Some tn \<Rightarrow> scan_loop svc tn [] [] None self)"

definition add_forum ::
  "'r dynamodb \<Rightarrow> string \<Rightarrow> pyval \<Rightarrow> pyval \<Rightarrow> pyval \<Rightarrow> pyval \<Rightarrow> 'r forum \<Rightarrow> (exn + unit) \<times> 'r forum" where
  "add_forum svc name category messages threads views self =
     (case table self of
        None \<Rightarrow> (Inl (AttributeError ''put_item''), self)
      | Some tn \<Rightarrow>
          (case Table_put_item svc tn
                  [(''Name'', PyStr name), (''Category'', category), (''Messages'', messages),
                   (''Threads'', threads), (''Views'', views)]
                  (remote self) of
             (Inl err, r) \<Rightarrow>
               (Inl (ClientError err),
                logger_error ''Couldn't add forum %s to table %s. Here's why: %s: %s''
                  [name, tn, Code err, Message err] (self\<lparr>remote := r\<rparr>))
           | (Inr _, r) \<Rightarrow> (Inr (), self\<lparr>remote := r\<rparr>)))"

text \<open>\<^verbatim>\<open>update_forum\<close> returns \<^verbatim>\<open>response['Attributes']\<close>.\<close>

definition update_forum ::
  "'r dynamodb \<Rightarrow> string \<Rightarrow> pyval \<Rightarrow> pyval \<Rightarrow> pyval \<Rightarrow> pyval \<Rightarrow> 'r forum \<Rightarrow> (exn + item) \<times> 'r forum" where
  "update_forum svc name category messages threads views self =
     (case table self of
        None \<Rightarrow> (Inl (AttributeError ''update_item''), self)
      | Some tn \<Rightarrow>
          (case Table_update_item svc tn
                  \<lparr>Key = [(''Name'', PyStr name)],
                   UpdateExpression = ''set Category=:c, Messages=:m, Threads=:t, #Views=:v'',
                   ExpressionAttributeValues =
                     [('':c'', category), ('':m'', messages), ('':t'', threads), ('':v'', views)],
                   ExpressionAttributeNames = [(''#Views'', ''Views'')],
                   ReturnValues = ''UPDATED_NEW''\<rparr>
                  (remote self) of
             (Inl err, r) \<Rightarrow>
               (Inl (ClientError err),
                logger_error ''Couldn't update forum %s in table %s. Here's why: %s: %s''
                  [name, tn, Code err, Message err] (self\<lparr>remote := r\<rparr>))
           | (Inr response, r) \<Rightarrow>
               (case Attributes response of
                  None \<Rightarrow> (Inl (KeyError ''Attributes''), self\<lparr>remote := r\<rparr>)
                | Some attrs \<Rightarrow> (Inr attrs, self\<lparr>remote := r\<rparr>))))"

definition delete_forum :: "'r dynamodb \<Rightarrow> string \<Rightarrow> 'r forum \<Rightarrow> (exn + unit) \<times> 'r forum" where
  "delete_forum svc name self =
     (case table self of
        None \<Rightarrow> (Inl (AttributeError ''delete_item''), self)
      | Some tn \<Rightarrow>
          (case Table_delete_item svc tn [(''Name'', PyStr name)] (remote self) of
             (Inl err, r) \<Rightarrow>
               (Inl (ClientError err),
                logger_error ''Couldn't delete forum %s. Here's why: %s: %s''
                  [name, Code err, Message err] (self\<lparr>remote := r\<rparr>))
           | (Inr _, r) \<Rightarrow> (Inr (), self\<lparr>remote := r\<rparr>)))"

text \<open>\<^verbatim>\<open>delete_table\<close>: \<^verbatim>\<open>self.table = None\<close> follows the call inside the \<^verbatim>\<open>try\<close>.\<close>

definition delete_table :: "'r dynamodb \<Rightarrow> 'r forum \<Rightarrow> (exn + unit) \<times> 'r forum" where
  "delete_table svc self =
     (case table self of
        None \<Rightarrow> (Inl (AttributeError ''delete''), self)
      | Some tn \<Rightarrow>
          (case Table_delete svc tn (remote self) of
             (Inl err, r) \<Rightarrow>
               (Inl (ClientError err),
                logger_error ''Couldn't delete table. Here's why: %s: %s''
                  [Code err, Message err] (self\<lparr>remote := r\<rparr>))
           | (Inr _, r) \<Rightarrow> (Inr (), self\<lparr>remote := r, table := None\<rparr>)))"

section \<open>An in-memory table service\<close>

text \<open>
  The service is an external collaborator. To run the facade end to end it is
  instantiated with an in-memory table service that follows the documented behaviour
  of the DynamoDB operations the class calls: a table has one hash key attribute, an
  item is stored under the value of that attribute, \<^verbatim>\<open>PutItem\<close> replaces the whole
  item, \<^verbatim>\<open>GetItem\<close> answers without an \<^verbatim>\<open>Item\<close> field when nothing matches,
  \<^verbatim>\<open>DeleteItem\<close> of a key that is not there succeeds, \<^verbatim>\<open>UpdateItem\<close> creates the
  item when it is not there, and \<^verbatim>\<open>Scan\<close> answers page by page, each page but the
  last with the key of its last item as \<^verbatim>\<open>LastEvaluatedKey\<close>. Every call on a table
  that does not exist is rejected with \<^verbatim>\<open>ResourceNotFoundException\<close>.
\<close>

record mem_table =
  key_name :: string
  key_type :: string
  rows :: "item list"

text \<open>
  \<open>page_size\<close> is the largest number of items a scan page holds (0: no limit).
  \<open>scans\<close> records, for every scan request served, the \<^verbatim>\<open>ExclusiveStartKey\<close> it
  carried and the \<^verbatim>\<open>LastEvaluatedKey\<close> of the answer.
\<close>

record store =
  tables :: "string \<rightharpoonup> mem_table"
  page_size :: nat
  scans :: "(item option \<times> item option) list"

definition not_found :: client_error where
  "not_found = \<lparr>Code = ''ResourceNotFoundException'', Message = ''Requested resource not found''\<rparr>"

definition validation :: "string \<Rightarrow> client_error" where
  "validation why = \<lparr>Code = ''ValidationException'', Message = why\<rparr>"

definition in_use :: "string \<Rightarrow> client_error" where
  "in_use tn = \<lparr>Code = ''ResourceInUseException'', Message = ''Table already exists: '' @ tn\<rparr>"

definition key_of :: "string \<Rightarrow> item \<Rightarrow> item" where
  "key_of k it = (case map_of it k of None \<Rightarrow> [] | Some v \<Rightarrow> [(k, v)])"

fun has_type :: "string \<Rightarrow> pyval \<Rightarrow> bool" where
  "has_type ty (PyStr s) = (ty = ''S'')"
| "has_type ty (PyInt i) = (ty = ''N'')"
| "has_type ty (PyDecimal s c e) = (ty = ''N'')"
| "has_type ty v = False"

definition valid_key :: "mem_table \<Rightarrow> item \<Rightarrow> bool" where
  "valid_key t key =
     (case key of [(a, v)] \<Rightarrow> a = key_name t \<and> has_type (key_type t) v | _ \<Rightarrow> False)"

definition valid_item :: "mem_table \<Rightarrow> item \<Rightarrow> bool" where
  "valid_item t it =
     (case map_of it (key_name t) of None \<Rightarrow> False | Some v \<Rightarrow> has_type (key_type t) v)"

fun put_row :: "string \<Rightarrow> item \<Rightarrow> item list \<Rightarrow> item list" where
  "put_row k it [] = [it]"
| "put_row k it (row # rs) =
     (if key_of k row = key_of k it then it # rs else row # put_row k it rs)"

definition mem_load :: "string \<Rightarrow> (unit, store) call" where
  "mem_load tn m = (case tables m tn of None \<Rightarrow> (Inl not_found, m) | Some t \<Rightarrow> (Inr (), m))"

definition mem_wait_until_exists :: "string \<Rightarrow> store \<Rightarrow> (string + unit) \<times> store" where
  "mem_wait_until_exists tn m =
     (case tables m tn of None \<Rightarrow> (Inl ''Max attempts exceeded'', m) | Some t \<Rightarrow> (Inr (), m))"

definition mem_create_table :: "create_table_request \<Rightarrow> (unit, store) call" where
  "mem_create_table req m =
     (case tables m (TableName req) of
        Some t \<Rightarrow> (Inl (in_use (TableName req)), m)
      | None \<Rightarrow>
          (case KeySchema req of
             [ks] \<Rightarrow>
               (case (map_of ks ''AttributeName'', map_of ks ''KeyType'',
                      List.find (\<lambda>d. map_of d ''AttributeName'' = map_of ks ''AttributeName'')
                        (AttributeDefinitions req)) of
                  (Some a, Some kt, Some d) \<Rightarrow>
                    (case map_of d ''AttributeType'' of
                       Some ty \<Rightarrow>
                         if kt = ''HASH''
                         then (Inr (),
                               m\<lparr>tables := (tables m)(TableName req \<mapsto>
                                    \<lparr>key_name = a, key_type = ty, rows = []\<rparr>)\<rparr>)
                         else (Inl (validation ''Invalid KeySchema''), m)
                     | None \<Rightarrow> (Inl (validation ''Invalid AttributeDefinitions''), m))
                | _ \<Rightarrow> (Inl (validation ''Invalid KeySchema''), m))
           | _ \<Rightarrow> (Inl (validation ''Invalid KeySchema''), m)))"

definition mem_get_item :: "string \<Rightarrow> item \<Rightarrow> (get_item_response, store) call" where
  "mem_get_item tn key m =
     (case tables m tn of
        None \<Rightarrow> (Inl not_found, m)
      | Some t \<Rightarrow>
          if valid_key t key
          then (Inr \<lparr>Item = List.find (\<lambda>row. key_of (key_name t) row = key) (rows t)\<rparr>, m)
          else (Inl (validation ''The provided key element does not match the schema''), m))"

definition mem_put_item :: "string \<Rightarrow> item \<Rightarrow> (unit, store) call" where
  "mem_put_item tn it m =
     (case tables m tn of
        None \<Rightarrow> (Inl not_found, m)
      | Some t \<Rightarrow>
          if valid_item t it
          then (Inr (), m\<lparr>tables := (tables m)(tn \<mapsto> t\<lparr>rows := put_row (key_name t) it (rows t)\<rparr>)\<rparr>)
          else (Inl (validation ''One of the required keys was not given a value''), m))"

fun mem_batch_writer :: "string \<Rightarrow> item list \<Rightarrow> (unit, store) call" where
  "mem_batch_writer tn [] m = (Inr (), m)"
| "mem_batch_writer tn (it # its) m =
     (case mem_put_item tn it m of
        (Inl err, m') \<Rightarrow> (Inl err, m')
      | (Inr u, m') \<Rightarrow> mem_batch_writer tn its m')"

definition mem_delete_item :: "string \<Rightarrow> item \<Rightarrow> (unit, store) call" where
  "mem_delete_item tn key m =
     (case tables m tn of
        None \<Rightarrow> (Inl not_found, m)
      | Some t \<Rightarrow>
          if valid_key t key
          then (Inr (),
                m\<lparr>tables := (tables m)(tn \<mapsto>
                     t\<lparr>rows := filter (\<lambda>row. key_of (key_name t) row \<noteq> key) (rows t)\<rparr>)\<rparr>)
          else (Inl (validation ''The provided key element does not match the schema''), m))"

definition mem_delete :: "string \<Rightarrow> (unit, store) call" where
  "mem_delete tn m =
     (case tables m tn of
        None \<Rightarrow> (Inl not_found, m)
      | Some t \<Rightarrow> (Inr (), m\<lparr>tables := (tables m)(tn := None)\<rparr>))"

text \<open>
  \<^verbatim>\<open>UpdateItem\<close>, for update expressions of the form
  \<^verbatim>\<open>set path = :value, ...\<close>: a path that starts with \<^verbatim>\<open>#\<close> is looked up in
  \<^verbatim>\<open>ExpressionAttributeNames\<close>, a value in \<^verbatim>\<open>ExpressionAttributeValues\<close>. The
  key attribute cannot be assigned, and no attribute twice. \<^verbatim>\<open>ReturnValues\<close> selects
  the answer: nothing, the item before or after the update, the attributes the
  expression assigns with their values before the update (\<^verbatim>\<open>UPDATED_OLD\<close>), or the
  fields that were changed with their new values (\<^verbatim>\<open>UPDATED_NEW\<close>).
\<close>

fun split_on :: "char \<Rightarrow> string \<Rightarrow> string list" where
  "split_on c [] = [[]]"
| "split_on c (x # xs) =
     (if x = c then [] # split_on c xs
      else (case split_on c xs of [] \<Rightarrow> [[x]] | w # ws \<Rightarrow> (x # w) # ws))"

definition strip :: "string \<Rightarrow> string" where
  "strip s = rev (dropWhile (\<lambda>c. c = CHR '' '') (rev (dropWhile (\<lambda>c. c = CHR '' '') s)))"

definition parse_assignment :: "string \<Rightarrow> (string \<times> string) option" where
  "parse_assignment a =
     (case split_on CHR ''='' a of
        [p, v] \<Rightarrow> if strip p = [] \<or> strip v = [] then None else Some (strip p, strip v)
      | _ \<Rightarrow> None)"

definition parse_set :: "string \<Rightarrow> (string \<times> string) list option" where
  "parse_set e =
     (if take 4 e = ''set '' \<or> take 4 e = ''SET ''
      then those (map parse_assignment (split_on CHR '','' (drop 4 e)))
      else None)"

definition attribute_name :: "(string \<times> string) list \<Rightarrow> string \<Rightarrow> string option" where
  "attribute_name names p =
     (case p of [] \<Rightarrow> None | c # cs \<Rightarrow> if c = CHR ''#'' then map_of names p else Some p)"

definition resolve :: "update_item_request \<Rightarrow> (string \<times> string) list \<Rightarrow> item option" where
  "resolve req asg =
     those (map (\<lambda>(p, v).
                   case (attribute_name (ExpressionAttributeNames req) p,
                         map_of (ExpressionAttributeValues req) v) of
                     (Some a, Some x) \<Rightarrow> Some (a, x)
                   | _ \<Rightarrow> None) asg)"

text \<open>
  Modelled from the spec: what the service answers under \<^verbatim>\<open>UPDATED_NEW\<close> is decided
  by the service, which is not in the repository. The spec has the update return
  exactly the new values of the fields that were changed, not the full record, and
  \<^verbatim>\<open>{Views: 2000}\<close> when only the view count changes. So the answer holds the
  attributes of the item after the update whose value is not the one the item had
  before; a new item had no attribute before.
\<close>

definition changed :: "item \<Rightarrow> item \<Rightarrow> item" where
  "changed old new = filter (\<lambda>(a, v). map_of old a \<noteq> Some v) new"

definition returned :: "string \<Rightarrow> item option \<Rightarrow> item \<Rightarrow> string list \<Rightarrow> item option option" where
  "returned mode old new names =
     (if mode = ''NONE'' then Some None
      else if mode = ''ALL_OLD'' then Some old
      else if mode = ''UPDATED_OLD'' then Some (map_option (AList.restrict (set names)) old)
      else if mode = ''ALL_NEW'' then Some (Some new)
      else if mode = ''UPDATED_NEW''
      then Some (Some (changed (case old of None \<Rightarrow> [] | Some row \<Rightarrow> row) new))
      else None)"

definition mem_update_item :: "string \<Rightarrow> update_item_request \<Rightarrow> (update_item_response, store) call" where
  "mem_update_item tn req m =
     (case tables m tn of
        None \<Rightarrow> (Inl not_found, m)
      | Some t \<Rightarrow>
          if \<not> valid_key t (Key req)
          then (Inl (validation ''The provided key element does not match the schema''), m)
          else
            (case Option.bind (parse_set (UpdateExpression req)) (resolve req) of
               None \<Rightarrow> (Inl (validation ''Invalid UpdateExpression''), m)
             | Some asg \<Rightarrow>
                 if key_name t \<in> set (map fst asg) \<or> \<not> distinct (map fst asg)
                 then (Inl (validation ''Invalid UpdateExpression''), m)
                 else
                   (let old = List.find (\<lambda>row. key_of (key_name t) row = Key req) (rows t);
                        new = foldl (\<lambda>row (a, x). AList.update a x row)
                                (case old of None \<Rightarrow> Key req | Some row \<Rightarrow> row) asg
                    in case returned (ReturnValues req) old new (map fst asg) of
                         None \<Rightarrow> (Inl (validation ''Invalid ReturnValues''), m)
                       | Some attrs \<Rightarrow>
                           (Inr \<lparr>Attributes = attrs\<rparr>,
                            m\<lparr>tables := (tables m)(tn \<mapsto>
                                 t\<lparr>rows := put_row (key_name t) new (rows t)\<rparr>)\<rparr>))))"

text \<open>
  \<^verbatim>\<open>Scan\<close>: the items after the one \<^verbatim>\<open>ExclusiveStartKey\<close> names (all of them
  without it), cut to a page. The answer carries \<^verbatim>\<open>LastEvaluatedKey\<close> exactly when
  items remain after the page.
\<close>

definition mem_scan :: "string \<Rightarrow> (string \<times> item) list \<Rightarrow> (scan_response, store) call" where
  "mem_scan tn kwargs m =
     (case tables m tn of
        None \<Rightarrow> (Inl not_found, m)
      | Some t \<Rightarrow>
          (let esk = map_of kwargs ''ExclusiveStartKey'';
               rest = (case esk of
                         None \<Rightarrow> rows t
                       | Some key \<Rightarrow>
                           drop 1 (dropWhile (\<lambda>row. key_of (key_name t) row \<noteq> key) (rows t)));
               n = (if page_size m = 0 then length rest else page_size m);
               pg = take n rest;
               lek = (if length rest \<le> n then None else Some (key_of (key_name t) (last pg)))
           in (Inr \<lparr>Items = Some pg, LastEvaluatedKey = lek\<rparr>,
               m\<lparr>scans := scans m @ [(esk, lek)]\<rparr>)))"

definition in_memory :: "store dynamodb" where
  "in_memory =
     \<lparr>Table_load = mem_load,
      create_table_call = mem_create_table,
      Table_wait_until_exists = mem_wait_until_exists,
      Table_batch_writer = mem_batch_writer,
      Table_get_item = mem_get_item,
      Table_scan = mem_scan,
      Table_put_item = mem_put_item,
      Table_update_item = mem_update_item,
      Table_delete_item = mem_delete_item,
      Table_delete = mem_delete\<rparr>"

definition empty_store :: "nat \<Rightarrow> store" where
  "empty_store n = \<lparr>tables = Map.empty, page_size = n, scans = []\<rparr>"

text \<open>
  The table the script creates, holding the given items, and a \<^verbatim>\<open>Forum\<close> object
  that has that table as its handle.
\<close>

definition forum_table :: "item list \<Rightarrow> mem_table" where
  "forum_table rs = \<lparr>key_name = ''Name'', key_type = ''S'', rows = rs\<rparr>"

definition forum_store :: "nat \<Rightarrow> item list \<Rightarrow> store" where
  "forum_store n rs = \<lparr>tables = [''Forum'' \<mapsto> forum_table rs], page_size = n, scans = []\<rparr>"

definition opened :: "nat \<Rightarrow> item list \<Rightarrow> store forum" where
  "opened n rs = \<lparr>table = Some ''Forum'', remote = forum_store n rs, log = [], stdout = []\<rparr>"

definition forum_item :: "string \<Rightarrow> pyval \<Rightarrow> pyval \<Rightarrow> pyval \<Rightarrow> pyval \<Rightarrow> item" where
  "forum_item name category messages threads views =
     [(''Name'', PyStr name), (''Category'', category), (''Messages'', messages),
      (''Threads'', threads), (''Views'', views)]"

section \<open>Propagation of service faults\<close>

text \<open>
  What every handler of the class does with a \<^verbatim>\<open>ClientError\<close>: the call ends in
  that very error, the log has grown by exactly one record whose last two arguments
  are the error's code and message, and the world is the one the failed call left (no
  further call was made).
\<close>

definition diagnostic :: "client_error \<Rightarrow> string \<times> string list \<Rightarrow> bool" where
  "diagnostic err entry =
     (2 \<le> length (snd entry)
      \<and> drop (length (snd entry) - 2) (snd entry) = [Code err, Message err])"

definition logged_and_raised :: "client_error \<Rightarrow> 'r \<Rightarrow> 'r forum \<Rightarrow> (exn + 'a) \<times> 'r forum \<Rightarrow> bool" where
  "logged_and_raised err r self out =
     (fst out = Inl (ClientError err)
      \<and> remote (snd out) = r
      \<and> log (snd out) = log self @ [last (log (snd out))]
      \<and> diagnostic err (last (log (snd out))))"

text \<open>
  A service that rejects every request with the same error, and whose waiter gives up.
  An empty batch sends no request, so there is nothing to reject.
\<close>

definition rejecting :: "client_error \<Rightarrow> 'r dynamodb" where
  "rejecting err =
     \<lparr>Table_load = (\<lambda>tn r. (Inl err, r)),
      create_table_call = (\<lambda>req r. (Inl err, r)),
      Table_wait_until_exists = (\<lambda>tn r. (Inl ''Max attempts exceeded'', r)),
      Table_batch_writer = (\<lambda>tn its r. if its = [] then (Inr (), r) else (Inl err, r)),
      Table_get_item = (\<lambda>tn key r. (Inl err, r)),
      Table_scan = (\<lambda>tn kwargs r. (Inl err, r)),
      Table_put_item = (\<lambda>tn it r. (Inl err, r)),
      Table_update_item = (\<lambda>tn req r. (Inl err, r)),
      Table_delete_item = (\<lambda>tn key r. (Inl err, r)),
      Table_delete = (\<lambda>tn r. (Inl err, r))\<rparr>"

text \<open>
  An error other than not-found, a \<^verbatim>\<open>Forum\<close> object that holds a handle with no world
  behind it, and a service whose create call succeeds while the wait after it gives up
  and every other call is rejected.
\<close>

definition throttled :: client_error where
  "throttled = \<lparr>Code = ''ProvisionedThroughputExceededException'',
                 Message = ''The level of configured provisioned throughput for the table was exceeded''\<rparr>"

definition handle_only :: "unit forum" where
  "handle_only = \<lparr>table = Some ''Forum'', remote = (), log = [], stdout = []\<rparr>"

definition rejecting_wait :: "client_error \<Rightarrow> unit dynamodb" where
  "rejecting_wait err = (rejecting err)\<lparr>create_table_call := (\<lambda>req r. (Inr (), r))\<rparr>"

section \<open>Updating a record\<close>

text \<open>The row \<^verbatim>\<open>update_forum\<close>'s expression makes of a row.\<close>

definition rewritten :: "item \<Rightarrow> pyval \<Rightarrow> pyval \<Rightarrow> pyval \<Rightarrow> pyval \<Rightarrow> item" where
  "rewritten base category messages threads views =
     AList.update ''Views'' views (AList.update ''Threads'' threads
       (AList.update ''Messages'' messages (AList.update ''Category'' category base)))"

definition base_row :: "mem_table \<Rightarrow> string \<Rightarrow> item" where
  "base_row t name =
     (case List.find (\<lambda>row. key_of ''Name'' row = [(''Name'', PyStr name)]) (rows t) of
        None \<Rightarrow> [(''Name'', PyStr name)]
      | Some row \<Rightarrow> row)"

definition stored_row :: "mem_table \<Rightarrow> string \<Rightarrow> item" where
  "stored_row t name =
     (case List.find (\<lambda>row. key_of ''Name'' row = [(''Name'', PyStr name)]) (rows t) of
        None \<Rightarrow> []
      | Some row \<Rightarrow> row)"

text \<open>A service that answers every update with the same attributes.\<close>

definition answering :: "item \<Rightarrow> unit dynamodb" where
  "answering attrs =
     (rejecting throttled)\<lparr>Table_update_item := (\<lambda>tn req r. (Inr \<lparr>Attributes = Some attrs\<rparr>, r))\<rparr>"

section \<open>Scanning the table\<close>




section \<open>Loading the sample data\<close>

text \<open>
  \<^verbatim>\<open>get_sample_forum_data\<close> opens a file and hands it to
  \<^verbatim>\<open>json.load(forum_file, parse_float=Decimal)\<close>. A well-formed JSON document is a
  syntax tree. A number stands in it as the decoder's scanner reads it: the three
  groups of its literal, the integer part (with its sign), the fraction (with its dot)
  and the exponent (with its \<^verbatim>\<open>e\<close>), the last two optional.
\<close>

datatype json =
    JNull
  | JBool bool
  | JNumber string "string option" "string option"
  | JString string
  | JArray "json list"
  | JObject "(string \<times> json) list"

text \<open>
  \<^verbatim>\<open>int\<close> of a decimal literal, and \<^verbatim>\<open>Decimal\<close> of one: the sign, the digits of
  the mantissa without the dot as the coefficient, and the exponent less the number of
  fraction digits. Neither rounds.
\<close>

definition digit :: "char \<Rightarrow> nat" where
  "digit c = of_char c - 48"

definition nat_of_digits :: "string \<Rightarrow> nat" where
  "nat_of_digits ds = foldl (\<lambda>n c. 10 * n + digit c) 0 ds"

definition py_int :: "string \<Rightarrow> int" where
  "py_int s =
     (case s of
        [] \<Rightarrow> 0
      | c # ds \<Rightarrow>
          if c = CHR ''-'' then - int (nat_of_digits ds)
          else if c = CHR ''+'' then int (nat_of_digits ds)
          else int (nat_of_digits s))"


text \<open>
  The decoder: a number with a fraction or an exponent goes to the \<^verbatim>\<open>parse_float\<close>
  hook as the text of its literal, any other number to \<^verbatim>\<open>int\<close>. An object becomes a
  dictionary; of two members with the same name the later one stays.
\<close>

fun json_load :: "(string \<Rightarrow> pyval) \<Rightarrow> json \<Rightarrow> pyval" where
  "json_load parse_float JNull = PyNone"
| "json_load parse_float (JBool b) = PyBool b"
| "json_load parse_float (JNumber integer frac exp) =
     (if frac \<noteq> None \<or> exp \<noteq> None
      then parse_float (integer @ (case frac of None \<Rightarrow> [] | Some f \<Rightarrow> f)
                          @ (case exp of None \<Rightarrow> [] | Some e \<Rightarrow> e))
      else PyInt (py_int integer))"
| "json_load parse_float (JString s) = PyStr s"
| "json_load parse_float (JArray vs) = PyList (map (json_load parse_float) vs)"
| "json_load parse_float (JObject kvs) =
     PyDict (foldl (\<lambda>d kv. AList.update (fst kv) (json_load parse_float (snd kv)) d) [] kvs)"

text \<open>The JSON literal of an integer: its decimal digits, after a minus sign when negative.\<close>

definition digit_char :: "nat \<Rightarrow> char" where
  "digit_char d = ''0123456789'' ! d"

fun digits_of :: "nat \<Rightarrow> string" where
  "digits_of n =
     (if n < 10 then [digit_char n]
      else digits_of (n div 10) @ [digit_char (n mod 10)])"

declare digits_of.simps [simp del]

definition int_literal :: "int \<Rightarrow> string" where
  "int_literal n = (if n < 0 then CHR ''-'' # digits_of (nat (- n)) else digits_of (nat n))"








section \<open>Properties: table lifecycle\<close>

lemma in_memory_simps:
  "Table_load in_memory = mem_load"
  "create_table_call in_memory = mem_create_table"
  "Table_wait_until_exists in_memory = mem_wait_until_exists"
  "Table_batch_writer in_memory = mem_batch_writer"
  "Table_get_item in_memory = mem_get_item"
  "Table_scan in_memory = mem_scan"
  "Table_put_item in_memory = mem_put_item"
  "Table_update_item in_memory = mem_update_item"
  "Table_delete_item in_memory = mem_delete_item"
  "Table_delete in_memory = mem_delete"
  by (simp_all add: in_memory_def)

lemma opened_simps:
  "table (opened n rs) = Some ''Forum''"
  "remote (opened n rs) = forum_store n rs"
  "log (opened n rs) = []"
  "tables (forum_store n rs) ''Forum'' = Some (forum_table rs)"
  "page_size (forum_store n rs) = n"
  "scans (forum_store n rs) = []"
  "key_name (forum_table rs) = ''Name''"
  "key_type (forum_table rs) = ''S''"
  "rows (forum_table rs) = rs"
  by (simp_all add: opened_def forum_store_def forum_table_def)

text \<open>
  C4, as the code has it. \<^verbatim>\<open>exists\<close> returns \<^verbatim>\<open>False\<close> exactly when \<^verbatim>\<open>load\<close>
  raised a \<^verbatim>\<open>ClientError\<close> whose code is \<^verbatim>\<open>ResourceNotFoundException\<close>; a
  \<^verbatim>\<open>ClientError\<close> with any other code is logged and raised again; it returns
  \<^verbatim>\<open>True\<close> exactly when \<^verbatim>\<open>load\<close> succeeded. The handle is stored only in that
  last case: after a not-found answer or an error \<^verbatim>\<open>self.table\<close> is what it was.
\<close>

theorem exists_classifies_load:
  assumes "Table_load svc table_name (remote self) = (res, r)"
  shows "(fst (exists svc table_name self) = Inr False)
           = (\<exists>err. res = Inl err \<and> Code err = ''ResourceNotFoundException'')
       \<and> (\<forall>err. res = Inl err \<and> Code err \<noteq> ''ResourceNotFoundException'' \<longrightarrow>
              fst (exists svc table_name self) = Inl (ClientError err)
            \<and> log (snd (exists svc table_name self)) =
                log self @ [(''Couldn't check for existence of %s. Here's why: %s: %s'',
                             [table_name, Code err, Message err])])
       \<and> (fst (exists svc table_name self) = Inr True) = (res = Inr ())
       \<and> table (snd (exists svc table_name self))
           = (if res = Inr () then Some table_name else table self)
       \<and> remote (snd (exists svc table_name self)) = r"
proof (cases res)
  case (Inl err)
  with assms show ?thesis
    by (simp add: exists_def logger_error_def)
next
  case (Inr u)
  with assms show ?thesis
    by (simp add: exists_def)
qed

theorem exists_classifies_load_witness:
  "fst (exists in_memory ''Forum'' (opened 0 [])) = Inr True
   \<and> table (snd (exists in_memory ''Forum'' (opened 0 []))) = Some ''Forum''"
proof -
  have "Table_load in_memory ''Forum'' (remote (opened 0 [])) = (Inr (), forum_store 0 [])"
    by (simp add: in_memory_simps opened_simps mem_load_def)
  from exists_classifies_load [OF this] show ?thesis
    by simp
qed

text \<open>
  The counterexample to C4 as stated: probing a table that does not exist answers
  \<^verbatim>\<open>False\<close> and stores no handle.
\<close>

theorem exists_not_found_caches_nothing:
  "fst (exists in_memory ''Forum'' (init (empty_store 0))) = Inr False
   \<and> table (snd (exists in_memory ''Forum'' (init (empty_store 0)))) = None"
  by (simp add: exists_def in_memory_simps mem_load_def init_def empty_store_def not_found_def)

text \<open>
  C9. With a table handle stored, \<^verbatim>\<open>delete_table\<close> sends the drop for that table and
  nothing else. When the drop succeeds it returns and \<^verbatim>\<open>self.table\<close> is
  \<^verbatim>\<open>None\<close>; when the drop is rejected the \<^verbatim>\<open>ClientError\<close> is logged and raised
  again, and the handle stays.
\<close>

theorem delete_table_drops_cached_handle:
  assumes "table self = Some tn"
    and "Table_delete svc tn (remote self) = (res, r)"
  shows "remote (snd (delete_table svc self)) = r
       \<and> (case res of
            Inr u \<Rightarrow>
              fst (delete_table svc self) = Inr ()
            \<and> table (snd (delete_table svc self)) = None
            \<and> log (snd (delete_table svc self)) = log self
          | Inl err \<Rightarrow>
              fst (delete_table svc self) = Inl (ClientError err)
            \<and> table (snd (delete_table svc self)) = Some tn
            \<and> log (snd (delete_table svc self)) =
                log self @ [(''Couldn't delete table. Here's why: %s: %s'',
                             [Code err, Message err])])"
  using assms by (cases res) (simp_all add: delete_table_def logger_error_def)

theorem delete_table_drops_cached_handle_witness:
  "fst (delete_table in_memory (opened 0 [])) = Inr ()
   \<and> table (snd (delete_table in_memory (opened 0 []))) = None
   \<and> tables (remote (snd (delete_table in_memory (opened 0 [])))) ''Forum'' = None"
proof -
  have t: "table (opened 0 []) = Some ''Forum''"
    by (simp add: opened_simps)
  have d: "Table_delete in_memory ''Forum'' (remote (opened 0 []))
             = (Inr (), (forum_store 0 [])\<lparr>tables := (tables (forum_store 0 []))(''Forum'' := None)\<rparr>)"
    by (simp add: in_memory_simps opened_simps mem_delete_def)
  from delete_table_drops_cached_handle [OF t d] show ?thesis
    by simp
qed

section \<open>Properties: reading a record\<close>

text \<open>
  C2, as the code has it. When the answer to \<^verbatim>\<open>get_item\<close> has no \<^verbatim>\<open>Item\<close> field,
  which is how the service answers for a key that matches no record,
  \<^verbatim>\<open>get_forum\<close> raises \<^verbatim>\<open>KeyError('Item')\<close>: no value is returned, the exception
  is not a \<^verbatim>\<open>ClientError\<close>, and nothing is logged.
\<close>

theorem get_forum_without_item_raises:
  assumes "table self = Some tn"
    and "Table_get_item svc tn [(''Name'', PyStr name)] (remote self) = (Inr response, r)"
    and "Item response = None"
  shows "get_forum svc name self = (Inl (KeyError ''Item''), self\<lparr>remote := r\<rparr>)"
  using assms by (simp add: get_forum_def)

theorem get_forum_without_item_raises_witness:
  "get_forum in_memory ''SQL server'' (opened 0 [])
     = (Inl (KeyError ''Item''), (opened 0 [])\<lparr>remote := forum_store 0 []\<rparr>)"
proof -
  have t: "table (opened 0 []) = Some ''Forum''"
    by (simp add: opened_simps)
  have g: "Table_get_item in_memory ''Forum'' [(''Name'', PyStr ''SQL server'')] (remote (opened 0 []))
             = (Inr \<lparr>Item = None\<rparr>, forum_store 0 [])"
    by (simp add: in_memory_simps opened_simps mem_get_item_def valid_key_def)
  show ?thesis
    by (rule get_forum_without_item_raises [OF t g]) simp
qed

text \<open>
  The counterexample to C2 as stated: looking up a key that is not in the table
  returns no value at all; the call ends in an exception.
\<close>

theorem get_forum_missing_key_raises:
  "fst (get_forum in_memory ''Oracle''
          (opened 0 [forum_item ''SQL server'' (PyStr ''Amazon Web Services'') (PyInt 4) (PyInt 2) (PyInt 1000)]))
     = Inl (KeyError ''Item'')"
  by (simp add: get_forum_def in_memory_simps opened_simps mem_get_item_def valid_key_def
      forum_item_def key_of_def)

section \<open>Properties: propagation of service faults\<close>

lemma exists_fault:
  "Table_load svc table_name (remote self) = (Inl err, r) \<Longrightarrow>
   Code err \<noteq> ''ResourceNotFoundException'' \<Longrightarrow>
   logged_and_raised err r self (exists svc table_name self)"
  by (simp add: exists_def logged_and_raised_def diagnostic_def logger_error_def)

lemma create_table_fault:
  "create_table_call svc
     \<lparr>TableName = table_name,
      KeySchema = [[(''AttributeName'', ''Name''), (''KeyType'', ''HASH'')]],
      AttributeDefinitions = [[(''AttributeName'', ''Name''), (''AttributeType'', ''S'')]],
      ProvisionedThroughput = [(''ReadCapacityUnits'', 10), (''WriteCapacityUnits'', 5)]\<rparr>
     (remote self) = (Inl err, r) \<Longrightarrow>
   logged_and_raised err r self (create_table svc table_name self)"
  by (simp add: create_table_def logged_and_raised_def diagnostic_def logger_error_def)

lemma create_table_wait_failure:
  "create_table_call svc
     \<lparr>TableName = table_name,
      KeySchema = [[(''AttributeName'', ''Name''), (''KeyType'', ''HASH'')]],
      AttributeDefinitions = [[(''AttributeName'', ''Name''), (''AttributeType'', ''S'')]],
      ProvisionedThroughput = [(''ReadCapacityUnits'', 10), (''WriteCapacityUnits'', 5)]\<rparr>
     (remote self) = (Inr (), r') \<Longrightarrow>
   Table_wait_until_exists svc table_name r' = (Inl reason, r) \<Longrightarrow>
   create_table svc table_name self
     = (Inl (WaiterError reason), self\<lparr>remote := r, table := Some table_name\<rparr>)"
  by (simp add: create_table_def)

lemma write_batch_fault:
  "table self = Some tn \<Longrightarrow>
   Table_batch_writer svc tn forums (remote self) = (Inl err, r) \<Longrightarrow>
   logged_and_raised err r self (write_batch svc forums self)"
  by (simp add: write_batch_def logged_and_raised_def diagnostic_def logger_error_def)

lemma get_forum_fault:
  "table self = Some tn \<Longrightarrow>
   Table_get_item svc tn [(''Name'', PyStr name)] (remote self) = (Inl err, r) \<Longrightarrow>
   logged_and_raised err r self (get_forum svc name self)"
  by (simp add: get_forum_def logged_and_raised_def diagnostic_def logger_error_def)

lemma scan_loop_fault:
  "Table_scan svc tn
     (if truthy start_key then AList.update ''ExclusiveStartKey'' (the start_key) scan_kwargs
      else scan_kwargs)
     (remote self) = (Inl err, r) \<Longrightarrow>
   (case scan_loop svc tn scan_kwargs forums start_key self of
      None \<Rightarrow> False
    | Some out \<Rightarrow> logged_and_raised err r self out)"
  by (subst scan_loop.simps)
     (simp add: logged_and_raised_def diagnostic_def logger_error_def)

lemma scan_forums_fault:
  "table self = Some tn \<Longrightarrow>
   Table_scan svc tn [] (remote self) = (Inl err, r) \<Longrightarrow>
   (case scan_forums svc self of
      None \<Rightarrow> False
    | Some out \<Rightarrow> logged_and_raised err r self out)"
  using scan_loop_fault [where svc = svc and tn = tn and start_key = None
      and scan_kwargs = "[]" and self = self and err = err and r = r and forums = "[]"]
  by (simp add: scan_forums_def truthy_def)

lemma add_forum_fault:
  "table self = Some tn \<Longrightarrow>
   Table_put_item svc tn
     [(''Name'', PyStr name), (''Category'', category), (''Messages'', messages),
      (''Threads'', threads), (''Views'', views)]
     (remote self) = (Inl err, r) \<Longrightarrow>
   logged_and_raised err r self (add_forum svc name category messages threads views self)"
  by (simp add: add_forum_def logged_and_raised_def diagnostic_def logger_error_def)

lemma update_forum_fault:
  "table self = Some tn \<Longrightarrow>
   Table_update_item svc tn
     \<lparr>Key = [(''Name'', PyStr name)],
      UpdateExpression = ''set Category=:c, Messages=:m, Threads=:t, #Views=:v'',
      ExpressionAttributeValues =
        [('':c'', category), ('':m'', messages), ('':t'', threads), ('':v'', views)],
      ExpressionAttributeNames = [(''#Views'', ''Views'')],
      ReturnValues = ''UPDATED_NEW''\<rparr>
     (remote self) = (Inl err, r) \<Longrightarrow>
   logged_and_raised err r self (update_forum svc name category messages threads views self)"
  by (simp add: update_forum_def logged_and_raised_def diagnostic_def logger_error_def)

lemma delete_forum_fault:
  "table self = Some tn \<Longrightarrow>
   Table_delete_item svc tn [(''Name'', PyStr name)] (remote self) = (Inl err, r) \<Longrightarrow>
   logged_and_raised err r self (delete_forum svc name self)"
  by (simp add: delete_forum_def logged_and_raised_def diagnostic_def logger_error_def)

lemma delete_table_fault:
  "table self = Some tn \<Longrightarrow>
   Table_delete svc tn (remote self) = (Inl err, r) \<Longrightarrow>
   logged_and_raised err r self (delete_table svc self)"
  by (simp add: delete_table_def logged_and_raised_def diagnostic_def logger_error_def)

text \<open>
  C8, as the code has it. In every method that calls the service, a \<^verbatim>\<open>ClientError\<close>
  raised by the call is logged (one record, carrying the code and the message) and
  raised again, with no further call: in \<^verbatim>\<open>exists\<close> for every code but
  \<^verbatim>\<open>ResourceNotFoundException\<close>, in \<^verbatim>\<open>create_table\<close> for the create call, in
  \<^verbatim>\<open>scan_forums\<close> for the request of any page, and in the other methods for their
  one call. The \<^verbatim>\<open>WaiterError\<close> that ends the wait of \<^verbatim>\<open>create_table\<close> is raised to
  the caller too, but no handler catches it: the log stays as it was, and the handle
  is already stored.
\<close>

theorem client_errors_are_logged_and_raised:
  "(Table_load svc table_name (remote self) = (Inl err, r)
      \<and> Code err \<noteq> ''ResourceNotFoundException'' \<longrightarrow>
    logged_and_raised err r self (exists svc table_name self))
 \<and> (create_table_call svc
       \<lparr>TableName = table_name,
        KeySchema = [[(''AttributeName'', ''Name''), (''KeyType'', ''HASH'')]],
        AttributeDefinitions = [[(''AttributeName'', ''Name''), (''AttributeType'', ''S'')]],
        ProvisionedThroughput = [(''ReadCapacityUnits'', 10), (''WriteCapacityUnits'', 5)]\<rparr>
       (remote self) = (Inl err, r) \<longrightarrow>
    logged_and_raised err r self (create_table svc table_name self))
 \<and> (create_table_call svc
       \<lparr>TableName = table_name,
        KeySchema = [[(''AttributeName'', ''Name''), (''KeyType'', ''HASH'')]],
        AttributeDefinitions = [[(''AttributeName'', ''Name''), (''AttributeType'', ''S'')]],
        ProvisionedThroughput = [(''ReadCapacityUnits'', 10), (''WriteCapacityUnits'', 5)]\<rparr>
       (remote self) = (Inr (), r')
      \<and> Table_wait_until_exists svc table_name r' = (Inl reason, r) \<longrightarrow>
    create_table svc table_name self
      = (Inl (WaiterError reason), self\<lparr>remote := r, table := Some table_name\<rparr>))
 \<and> (table self = Some tn
      \<and> Table_batch_writer svc tn forums (remote self) = (Inl err, r) \<longrightarrow>
    logged_and_raised err r self (write_batch svc forums self))
 \<and> (table self = Some tn
      \<and> Table_get_item svc tn [(''Name'', PyStr name)] (remote self) = (Inl err, r) \<longrightarrow>
    logged_and_raised err r self (get_forum svc name self))
 \<and> (Table_scan svc tn
       (if truthy start_key then AList.update ''ExclusiveStartKey'' (the start_key) scan_kwargs
        else scan_kwargs)
       (remote self) = (Inl err, r) \<longrightarrow>
    (case scan_loop svc tn scan_kwargs acc start_key self of
       None \<Rightarrow> False
     | Some out \<Rightarrow> logged_and_raised err r self out))
 \<and> (table self = Some tn \<and> Table_scan svc tn [] (remote self) = (Inl err, r) \<longrightarrow>
    (case scan_forums svc self of
       None \<Rightarrow> False
     | Some out \<Rightarrow> logged_and_raised err r self out))
 \<and> (table self = Some tn
      \<and> Table_put_item svc tn
          [(''Name'', PyStr name), (''Category'', category), (''Messages'', messages),
           (''Threads'', threads), (''Views'', views)]
          (remote self) = (Inl err, r) \<longrightarrow>
    logged_and_raised err r self (add_forum svc name category messages threads views self))
 \<and> (table self = Some tn
      \<and> Table_update_item svc tn
          \<lparr>Key = [(''Name'', PyStr name)],
           UpdateExpression = ''set Category=:c, Messages=:m, Threads=:t, #Views=:v'',
           ExpressionAttributeValues =
             [('':c'', category), ('':m'', messages), ('':t'', threads), ('':v'', views)],
           ExpressionAttributeNames = [(''#Views'', ''Views'')],
           ReturnValues = ''UPDATED_NEW''\<rparr>
          (remote self) = (Inl err, r) \<longrightarrow>
    logged_and_raised err r self (update_forum svc name category messages threads views self))
 \<and> (table self = Some tn
      \<and> Table_delete_item svc tn [(''Name'', PyStr name)] (remote self) = (Inl err, r) \<longrightarrow>
    logged_and_raised err r self (delete_forum svc name self))
 \<and> (table self = Some tn \<and> Table_delete svc tn (remote self) = (Inl err, r) \<longrightarrow>
    logged_and_raised err r self (delete_table svc self))"
  using exists_fault [of svc table_name self err r]
    create_table_fault [of svc table_name self err r]
    create_table_wait_failure [of svc table_name self r' reason r]
    write_batch_fault [of self tn svc forums err r]
    get_forum_fault [of self tn svc name err r]
    scan_loop_fault [where svc = svc and tn = tn and start_key = start_key
      and scan_kwargs = scan_kwargs and self = self and err = err and r = r and forums = acc]
    scan_forums_fault [of self tn svc err r]
    add_forum_fault [of self tn svc name category messages threads views err r]
    update_forum_fault [of self tn svc name category messages threads views err r]
    delete_forum_fault [of self tn svc name err r]
    delete_table_fault [of self tn svc err r]
  by blast

theorem client_errors_are_logged_and_raised_witness:
  "logged_and_raised throttled () handle_only (exists (rejecting throttled) ''Forum'' handle_only)
 \<and> logged_and_raised throttled () handle_only (create_table (rejecting throttled) ''Forum'' handle_only)
 \<and> create_table (rejecting_wait throttled) ''Forum'' handle_only
     = (Inl (WaiterError ''Max attempts exceeded''), handle_only\<lparr>remote := (), table := Some ''Forum''\<rparr>)
 \<and> logged_and_raised throttled () handle_only
      (write_batch (rejecting throttled)
         [[(''Name'', PyStr ''SQL server''), (''Views'', PyInt 1000)]] handle_only)
 \<and> logged_and_raised throttled () handle_only (get_forum (rejecting throttled) ''SQL server'' handle_only)
 \<and> (case scan_forums (rejecting throttled) handle_only of
       None \<Rightarrow> False
     | Some out \<Rightarrow> logged_and_raised throttled () handle_only out)
 \<and> logged_and_raised throttled () handle_only
      (add_forum (rejecting throttled) ''SQL server'' (PyStr ''Amazon Web Services'')
         (PyInt 4) (PyInt 2) (PyInt 1000) handle_only)
 \<and> logged_and_raised throttled () handle_only
      (update_forum (rejecting throttled) ''SQL server'' (PyStr ''Amazon Web Services'')
         (PyInt 4) (PyInt 2) (PyInt 2000) handle_only)
 \<and> logged_and_raised throttled () handle_only (delete_forum (rejecting throttled) ''SQL server'' handle_only)
 \<and> logged_and_raised throttled () handle_only (delete_table (rejecting throttled) handle_only)"
  using client_errors_are_logged_and_raised
      [where svc = "rejecting throttled" and self = handle_only and err = throttled
         and r = "()" and r' = "()" and table_name = "''Forum''" and tn = "''Forum''"
         and forums = "[[(''Name'', PyStr ''SQL server''), (''Views'', PyInt 1000)]]"
         and reason = "''Max attempts exceeded''" and name = "''SQL server''" and start_key = None
         and scan_kwargs = "[]" and acc = "[]" and category = "PyStr ''Amazon Web Services''"
         and messages = "PyInt 4" and threads = "PyInt 2" and views = "PyInt 1000"]
    client_errors_are_logged_and_raised
      [where svc = "rejecting throttled" and self = handle_only and err = throttled
         and r = "()" and r' = "()" and table_name = "''Forum''" and tn = "''Forum''"
         and forums = "[[(''Name'', PyStr ''SQL server''), (''Views'', PyInt 1000)]]"
         and reason = "''Max attempts exceeded''" and name = "''SQL server''" and start_key = None
         and scan_kwargs = "[]" and acc = "[]" and category = "PyStr ''Amazon Web Services''"
         and messages = "PyInt 4" and threads = "PyInt 2" and views = "PyInt 2000"]
    client_errors_are_logged_and_raised
      [where svc = "rejecting_wait throttled" and self = handle_only and err = throttled
         and r = "()" and r' = "()" and table_name = "''Forum''" and tn = "''Forum''"
         and forums = "[[(''Name'', PyStr ''SQL server''), (''Views'', PyInt 1000)]]"
         and reason = "''Max attempts exceeded''" and name = "''SQL server''" and start_key = None
         and scan_kwargs = "[]" and acc = "[]" and category = "PyStr ''Amazon Web Services''"
         and messages = "PyInt 4" and threads = "PyInt 2" and views = "PyInt 1000"]
  by (simp add: rejecting_def rejecting_wait_def throttled_def handle_only_def)

text \<open>
  The counterexample to C8 as stated: the table is created, the wait for it gives up,
  and \<^verbatim>\<open>create_table\<close> raises the waiter's error with nothing logged.
\<close>

theorem create_table_wait_failure_is_not_logged:
  "fst (create_table (rejecting_wait throttled) ''Forum'' handle_only)
     = Inl (WaiterError ''Max attempts exceeded'')
   \<and> log (snd (create_table (rejecting_wait throttled) ''Forum'' handle_only)) = []"
  by (simp add: create_table_def rejecting_def rejecting_wait_def handle_only_def)

section \<open>Properties: updating a record\<close>

lemma parse_set_forum:
  "parse_set ''set Category=:c, Messages=:m, Threads=:t, #Views=:v''
     = Some [(''Category'', '':c''), (''Messages'', '':m''), (''Threads'', '':t''), (''#Views'', '':v'')]"
  by (simp add: parse_set_def parse_assignment_def strip_def)

lemma resolve_forum:
  "resolve
     \<lparr>Key = key,
      UpdateExpression = e,
      ExpressionAttributeValues =
        [('':c'', category), ('':m'', messages), ('':t'', threads), ('':v'', views)],
      ExpressionAttributeNames = [(''#Views'', ''Views'')],
      ReturnValues = rv\<rparr>
     [(''Category'', '':c''), (''Messages'', '':m''), (''Threads'', '':t''), (''#Views'', '':v'')]
   = Some [(''Category'', category), (''Messages'', messages), (''Threads'', threads), (''Views'', views)]"
  by (simp add: resolve_def attribute_name_def)

lemma mem_update_item_forum:
  assumes "tables m tn = Some t" and "key_name t = ''Name''" and "key_type t = ''S''"
  shows "mem_update_item tn
     \<lparr>Key = [(''Name'', PyStr name)],
      UpdateExpression = ''set Category=:c, Messages=:m, Threads=:t, #Views=:v'',
      ExpressionAttributeValues =
        [('':c'', category), ('':m'', messages), ('':t'', threads), ('':v'', views)],
      ExpressionAttributeNames = [(''#Views'', ''Views'')],
      ReturnValues = ''UPDATED_NEW''\<rparr> m
   = (let new = rewritten
                  (case List.find (\<lambda>row. key_of ''Name'' row = [(''Name'', PyStr name)]) (rows t) of
                     None \<Rightarrow> [(''Name'', PyStr name)] | Some row \<Rightarrow> row)
                  category messages threads views
      in (Inr \<lparr>Attributes = Some (changed
            (case List.find (\<lambda>row. key_of ''Name'' row = [(''Name'', PyStr name)]) (rows t) of
               None \<Rightarrow> [] | Some row \<Rightarrow> row) new)\<rparr>,
          m\<lparr>tables := (tables m)(tn \<mapsto> t\<lparr>rows := put_row ''Name'' new (rows t)\<rparr>)\<rparr>))"
  using assms
  by (simp add: mem_update_item_def valid_key_def parse_set_forum resolve_forum returned_def
      rewritten_def Let_def insert_commute split: option.split)

lemma find_put_row:
  "key_of k it = key \<Longrightarrow> List.find (\<lambda>row. key_of k row = key) (put_row k it rs) = Some it"
  by (induction rs) auto

lemma find_put_row_other:
  "key_of k it \<noteq> key \<Longrightarrow>
   List.find (\<lambda>row. key_of k row = key) (put_row k it rs) = List.find (\<lambda>row. key_of k row = key) rs"
  by (induction rs) auto

lemma map_of_rewritten:
  "map_of (rewritten base category messages threads views)
     = (map_of base)(''Category'' \<mapsto> category, ''Messages'' \<mapsto> messages,
                     ''Threads'' \<mapsto> threads, ''Views'' \<mapsto> views)"
  by (simp add: rewritten_def update_conv')

lemma key_of_rewritten:
  "key_of ''Name'' (rewritten base category messages threads views) = key_of ''Name'' base"
  by (simp add: key_of_def map_of_rewritten)

lemma find_key_of:
  "List.find (\<lambda>row. key_of k row = key) rs = Some row \<Longrightarrow> key_of k row = key"
  by (auto simp: find_Some_iff)

lemma key_of_base_row: "key_of ''Name'' (base_row t name) = [(''Name'', PyStr name)]"
proof (cases "List.find (\<lambda>row. key_of ''Name'' row = [(''Name'', PyStr name)]) (rows t)")
  case None
  then show ?thesis by (simp add: base_row_def key_of_def)
next
  case (Some row)
  then show ?thesis using find_key_of [OF Some] by (simp add: base_row_def)
qed

lemma map_of_changed:
  "distinct (map fst new) \<Longrightarrow>
   map_of (changed old new) a
     = (case map_of new a of
          None \<Rightarrow> None
        | Some v \<Rightarrow> if map_of old a = Some v then None else Some v)"
proof (induction new)
  case Nil
  then show ?case by (simp add: changed_def)
next
  case (Cons kv new)
  obtain k v where kv: "kv = (k, v)" by (cases kv)
  from Cons.prems kv have notin: "k \<notin> fst ` set new" and d: "distinct (map fst new)"
    by auto
  from notin have none: "map_of (changed old new) k = None"
    by (auto simp: changed_def map_of_eq_None_iff)
  from notin have none': "map_of new k = None"
    by (simp add: map_of_eq_None_iff)
  show ?case
  proof (cases "a = k")
    case True
    with kv none show ?thesis by (simp add: changed_def)
  next
    case False
    with kv Cons.IH [OF d] show ?thesis by (simp add: changed_def)
  qed
qed

lemma distinct_rewritten:
  "distinct (map fst base) \<Longrightarrow> distinct (map fst (rewritten base category messages threads views))"
  unfolding rewritten_def by (intro distinct_update)

lemma update_forum_in_memory:
  assumes "table self = Some tn" and "tables (remote self) tn = Some t"
    and "key_name t = ''Name''" and "key_type t = ''S''"
  shows "update_forum in_memory name category messages threads views self
     = (Inr (changed (stored_row t name)
               (rewritten (base_row t name) category messages threads views)),
        self\<lparr>remote := (remote self)\<lparr>tables := (tables (remote self))(tn \<mapsto>
                 t\<lparr>rows := put_row ''Name''
                     (rewritten (base_row t name) category messages threads views) (rows t)\<rparr>)\<rparr>\<rparr>)"
  using assms
  by (simp add: update_forum_def in_memory_simps mem_update_item_forum base_row_def stored_row_def
      Let_def)

lemma get_forum_after_put_row:
  assumes "table self = Some tn" and "tables (remote self) tn = Some t"
    and "key_name t = ''Name''" and "key_type t = ''S''"
    and "key_of ''Name'' it = [(''Name'', PyStr name)]"
  shows "get_forum in_memory name
           (self\<lparr>remote := (remote self)\<lparr>tables := (tables (remote self))(tn \<mapsto>
                 t\<lparr>rows := put_row ''Name'' it (rows t)\<rparr>)\<rparr>\<rparr>)
     = (Inr it,
        self\<lparr>remote := (remote self)\<lparr>tables := (tables (remote self))(tn \<mapsto>
                 t\<lparr>rows := put_row ''Name'' it (rows t)\<rparr>)\<rparr>\<rparr>)"
  using assms
  by (simp add: get_forum_def in_memory_simps mem_get_item_def valid_key_def find_put_row)

text \<open>
  C1. Against the in-memory service, for a key that is in the table (its record a
  dictionary): \<^verbatim>\<open>update_forum\<close> returns, of the four attributes it assigns, exactly
  those whose stored value was not already the new one, each with its new value, and
  no other attribute (it is not the full record; the key is never in it). The stored
  record is the old one with the four attributes rewritten and everything else as it
  was. In the scenario of the script, where only the view count goes from 1000 to
  2000, the result is \<^verbatim>\<open>{Views: 2000}\<close>.
\<close>

theorem update_forum_returns_changed_fields:
  assumes "table self = Some tn" and "tables (remote self) tn = Some t"
    and "key_name t = ''Name''" and "key_type t = ''S''"
    and "List.find (\<lambda>row. key_of ''Name'' row = [(''Name'', PyStr name)]) (rows t) = Some old"
    and "distinct (map fst old)"
  shows "(case fst (update_forum in_memory name category messages threads views self) of
            Inl e \<Rightarrow> False
          | Inr attrs \<Rightarrow>
              map_of attrs ''Category''
                = (if map_of old ''Category'' = Some category then None else Some category)
            \<and> map_of attrs ''Messages''
                = (if map_of old ''Messages'' = Some messages then None else Some messages)
            \<and> map_of attrs ''Threads''
                = (if map_of old ''Threads'' = Some threads then None else Some threads)
            \<and> map_of attrs ''Views''
                = (if map_of old ''Views'' = Some views then None else Some views)
            \<and> (\<forall>a. a \<notin> {''Category'', ''Messages'', ''Threads'', ''Views''} \<longrightarrow>
                   map_of attrs a = None))
       \<and> (case fst (get_forum in_memory name
                      (snd (update_forum in_memory name category messages threads views self))) of
            Inl e \<Rightarrow> False
          | Inr row \<Rightarrow>
              map_of row = (map_of old)(''Category'' \<mapsto> category, ''Messages'' \<mapsto> messages,
                                        ''Threads'' \<mapsto> threads, ''Views'' \<mapsto> views)
            \<and> map_of row ''Name'' = Some (PyStr name))
       \<and> fst (update_forum in_memory ''SQL server'' (PyStr ''Amazon Web Services'') (PyInt 4)
                (PyInt 2) (PyInt 2000)
                (opened 0 [forum_item ''Amazon DynamoDB'' (PyStr ''Amazon Web Services'') (PyInt 4)
                             (PyInt 2) (PyInt 1000),
                           forum_item ''SQL server'' (PyStr ''Amazon Web Services'') (PyInt 4)
                             (PyInt 2) (PyInt 1000)]))
           = Inr [(''Views'', PyInt 2000)]"
proof -
  let ?new = "rewritten old category messages threads views"
  let ?attrs = "changed old ?new"
  let ?out = "update_forum in_memory name category messages threads views self"
  have b: "base_row t name = old" and st: "stored_row t name = old"
    using assms(5) by (simp_all add: base_row_def stored_row_def)
  have k: "key_of ''Name'' old = [(''Name'', PyStr name)]"
    using assms(5) by (rule find_key_of)
  then have n: "map_of old ''Name'' = Some (PyStr name)"
    by (simp add: key_of_def split: option.splits)
  have u: "fst ?out = Inr ?attrs"
    using update_forum_in_memory [OF assms(1-4), of name category messages threads views]
    by (simp add: b st)
  have kn: "key_of ''Name'' ?new = [(''Name'', PyStr name)]"
    by (simp add: key_of_rewritten k)
  have g: "fst (get_forum in_memory name (snd ?out)) = Inr ?new"
    using update_forum_in_memory [OF assms(1-4), of name category messages threads views]
      get_forum_after_put_row [OF assms(1-4) kn]
    by (simp add: b st)
  have m2: "map_of ?new = (map_of old)(''Category'' \<mapsto> category, ''Messages'' \<mapsto> messages,
                                        ''Threads'' \<mapsto> threads, ''Views'' \<mapsto> views)"
    by (rule map_of_rewritten)
  have c: "map_of ?attrs a
             = (case map_of ?new a of
                  None \<Rightarrow> None
                | Some v \<Rightarrow> if map_of old a = Some v then None else Some v)" for a
    using distinct_rewritten [OF assms(6)] by (rule map_of_changed)
  have a1: "map_of ?attrs ''Category''
              = (if map_of old ''Category'' = Some category then None else Some category)"
    and a2: "map_of ?attrs ''Messages''
              = (if map_of old ''Messages'' = Some messages then None else Some messages)"
    and a3: "map_of ?attrs ''Threads''
              = (if map_of old ''Threads'' = Some threads then None else Some threads)"
    and a4: "map_of ?attrs ''Views''
              = (if map_of old ''Views'' = Some views then None else Some views)"
    by (simp_all add: c m2)
  have a5: "map_of ?attrs a = None"
    if "a \<notin> {''Category'', ''Messages'', ''Threads'', ''Views''}" for a
    using that by (simp add: c m2 split: option.split)
  have r2: "map_of ?new ''Name'' = Some (PyStr name)"
    by (simp add: m2 n)
  have demo: "fst (update_forum in_memory ''SQL server'' (PyStr ''Amazon Web Services'') (PyInt 4)
                (PyInt 2) (PyInt 2000)
                (opened 0 [forum_item ''Amazon DynamoDB'' (PyStr ''Amazon Web Services'') (PyInt 4)
                             (PyInt 2) (PyInt 1000),
                           forum_item ''SQL server'' (PyStr ''Amazon Web Services'') (PyInt 4)
                             (PyInt 2) (PyInt 1000)]))
           = Inr [(''Views'', PyInt 2000)]"
    by (simp add: update_forum_in_memory [where tn = "''Forum''"
          and t = "forum_table [forum_item ''Amazon DynamoDB'' (PyStr ''Amazon Web Services'') (PyInt 4)
                       (PyInt 2) (PyInt 1000),
                     forum_item ''SQL server'' (PyStr ''Amazon Web Services'') (PyInt 4)
                       (PyInt 2) (PyInt 1000)]"]
        opened_simps base_row_def stored_row_def forum_item_def key_of_def rewritten_def changed_def)
  show ?thesis
    unfolding u g sum.case using a1 a2 a3 a4 a5 m2 r2 demo by blast
qed

theorem update_forum_returns_changed_fields_witness:
  "(case fst (update_forum in_memory ''SQL server'' (PyStr ''Amazon Web Services'') (PyInt 4)
                (PyInt 2) (PyInt 2000)
                (opened 0 [[(''Name'', PyStr ''SQL server''), (''Category'', PyStr ''Amazon Web Services''),
                            (''Views'', PyInt 1000), (''Owner'', PyStr ''dba'')]])) of
      Inl e \<Rightarrow> False
    | Inr attrs \<Rightarrow>
        map_of attrs ''Category'' = None
      \<and> map_of attrs ''Messages'' = Some (PyInt 4)
      \<and> map_of attrs ''Threads'' = Some (PyInt 2)
      \<and> map_of attrs ''Views'' = Some (PyInt 2000)
      \<and> map_of attrs ''Name'' = None
      \<and> map_of attrs ''Owner'' = None)"
  using update_forum_returns_changed_fields
    [where self = "opened 0 [[(''Name'', PyStr ''SQL server''), (''Category'', PyStr ''Amazon Web Services''),
                            (''Views'', PyInt 1000), (''Owner'', PyStr ''dba'')]]"
       and tn = "''Forum''"
       and t = "forum_table [[(''Name'', PyStr ''SQL server''), (''Category'', PyStr ''Amazon Web Services''),
                            (''Views'', PyInt 1000), (''Owner'', PyStr ''dba'')]]"
       and old = "[(''Name'', PyStr ''SQL server''), (''Category'', PyStr ''Amazon Web Services''),
                            (''Views'', PyInt 1000), (''Owner'', PyStr ''dba'')]"
       and name = "''SQL server''" and category = "PyStr ''Amazon Web Services''"
       and messages = "PyInt 4" and threads = "PyInt 2" and views = "PyInt 2000"]
  by (auto simp: opened_simps key_of_def split: sum.splits)

text \<open>
  C10, as the code has it. On every call \<^verbatim>\<open>update_forum\<close> sends one update whose
  expression assigns all four attributes \<^verbatim>\<open>Category\<close>, \<^verbatim>\<open>Messages\<close>,
  \<^verbatim>\<open>Threads\<close> and \<^verbatim>\<open>Views\<close> to the arguments, whatever the caller meant to change,
  and against the in-memory service the record read back afterwards carries all four,
  for a key that was there or not. What the method returns is the \<^verbatim>\<open>Attributes\<close> of
  the answer, handed on as they are: the method adds no field and drops none.
\<close>

theorem update_forum_assigns_all_four:
  "(table self = Some tn
      \<and> Table_update_item svc tn
          \<lparr>Key = [(''Name'', PyStr name)],
           UpdateExpression = ''set Category=:c, Messages=:m, Threads=:t, #Views=:v'',
           ExpressionAttributeValues =
             [('':c'', category), ('':m'', messages), ('':t'', threads), ('':v'', views)],
           ExpressionAttributeNames = [(''#Views'', ''Views'')],
           ReturnValues = ''UPDATED_NEW''\<rparr>
          (remote self) = (Inr response, r)
      \<and> Attributes response = Some attrs \<longrightarrow>
    update_forum svc name category messages threads views self = (Inr attrs, self\<lparr>remote := r\<rparr>))
 \<and> Option.bind (parse_set ''set Category=:c, Messages=:m, Threads=:t, #Views=:v'')
      (resolve
         \<lparr>Key = [(''Name'', PyStr name)],
          UpdateExpression = ''set Category=:c, Messages=:m, Threads=:t, #Views=:v'',
          ExpressionAttributeValues =
            [('':c'', category), ('':m'', messages), ('':t'', threads), ('':v'', views)],
          ExpressionAttributeNames = [(''#Views'', ''Views'')],
          ReturnValues = ''UPDATED_NEW''\<rparr>)
     = Some [(''Category'', category), (''Messages'', messages), (''Threads'', threads),
             (''Views'', views)]
 \<and> (table stored = Some tn' \<and> tables (remote stored) tn' = Some t
      \<and> key_name t = ''Name'' \<and> key_type t = ''S'' \<longrightarrow>
    (case fst (get_forum in_memory name
                 (snd (update_forum in_memory name category messages threads views stored))) of
       Inl e \<Rightarrow> False
     | Inr row \<Rightarrow>
         map_of row ''Category'' = Some category \<and> map_of row ''Messages'' = Some messages
       \<and> map_of row ''Threads'' = Some threads \<and> map_of row ''Views'' = Some views))"
proof (intro conjI impI)
  assume "table self = Some tn
      \<and> Table_update_item svc tn
          \<lparr>Key = [(''Name'', PyStr name)],
           UpdateExpression = ''set Category=:c, Messages=:m, Threads=:t, #Views=:v'',
           ExpressionAttributeValues =
             [('':c'', category), ('':m'', messages), ('':t'', threads), ('':v'', views)],
           ExpressionAttributeNames = [(''#Views'', ''Views'')],
           ReturnValues = ''UPDATED_NEW''\<rparr>
          (remote self) = (Inr response, r)
      \<and> Attributes response = Some attrs"
  then show "update_forum svc name category messages threads views self
               = (Inr attrs, self\<lparr>remote := r\<rparr>)"
    by (simp add: update_forum_def)
next
  show "Option.bind (parse_set ''set Category=:c, Messages=:m, Threads=:t, #Views=:v'')
      (resolve
         \<lparr>Key = [(''Name'', PyStr name)],
          UpdateExpression = ''set Category=:c, Messages=:m, Threads=:t, #Views=:v'',
          ExpressionAttributeValues =
            [('':c'', category), ('':m'', messages), ('':t'', threads), ('':v'', views)],
          ExpressionAttributeNames = [(''#Views'', ''Views'')],
          ReturnValues = ''UPDATED_NEW''\<rparr>)
     = Some [(''Category'', category), (''Messages'', messages), (''Threads'', threads),
             (''Views'', views)]"
    by (simp add: parse_set_forum resolve_forum)
next
  assume "table stored = Some tn' \<and> tables (remote stored) tn' = Some t
      \<and> key_name t = ''Name'' \<and> key_type t = ''S''"
  then show "case fst (get_forum in_memory name
                 (snd (update_forum in_memory name category messages threads views stored))) of
       Inl e \<Rightarrow> False
     | Inr row \<Rightarrow>
         map_of row ''Category'' = Some category \<and> map_of row ''Messages'' = Some messages
       \<and> map_of row ''Threads'' = Some threads \<and> map_of row ''Views'' = Some views"
    by (simp add: update_forum_in_memory get_forum_after_put_row
        key_of_rewritten key_of_base_row map_of_rewritten)
qed

theorem update_forum_assigns_all_four_witness:
  "update_forum (answering [(''Messages'', PyInt 5)]) ''Oracle'' (PyStr ''Databases'') (PyInt 5)
     (PyInt 1) (PyInt 7) handle_only
     = (Inr [(''Messages'', PyInt 5)], handle_only)
 \<and> (case fst (get_forum in_memory ''Oracle''
                (snd (update_forum in_memory ''Oracle'' (PyStr ''Databases'') (PyInt 5) (PyInt 1)
                        (PyInt 7) (opened 0 [])))) of
      Inl e \<Rightarrow> False
    | Inr row \<Rightarrow>
        map_of row ''Category'' = Some (PyStr ''Databases'') \<and> map_of row ''Messages'' = Some (PyInt 5)
      \<and> map_of row ''Threads'' = Some (PyInt 1) \<and> map_of row ''Views'' = Some (PyInt 7))"
  using update_forum_assigns_all_four
    [where svc = "answering [(''Messages'', PyInt 5)]" and self = handle_only and tn = "''Forum''"
       and response = "\<lparr>Attributes = Some [(''Messages'', PyInt 5)]\<rparr>" and r = "()"
       and attrs = "[(''Messages'', PyInt 5)]"
       and name = "''Oracle''" and category = "PyStr ''Databases''" and messages = "PyInt 5"
       and threads = "PyInt 1" and views = "PyInt 7"
       and stored = "opened 0 []" and tn' = "''Forum''" and t = "forum_table []"]
  by (simp add: answering_def rejecting_def handle_only_def opened_simps)

text \<open>
  The counterexample to C10 as stated: the caller changes only the view count, all
  four attributes are assigned, and what comes back is the view count alone; the
  method hands on what the service answered.
\<close>

theorem update_forum_changing_views_returns_views_only:
  "update_forum (answering [(''Views'', PyInt 2000)]) ''SQL server'' (PyStr ''Amazon Web Services'')
     (PyInt 4) (PyInt 2) (PyInt 2000) handle_only
     = (Inr [(''Views'', PyInt 2000)], handle_only)
   \<and> fst (update_forum in_memory ''Amazon DynamoDB'' (PyStr ''Amazon Web Services'') (PyInt 4)
            (PyInt 2) (PyInt 1001)
            (opened 0 [forum_item ''Amazon DynamoDB'' (PyStr ''Amazon Web Services'') (PyInt 4)
                         (PyInt 2) (PyInt 1000)]))
       = Inr [(''Views'', PyInt 1001)]"
  by (simp add: update_forum_in_memory [where tn = "''Forum''"
        and t = "forum_table [forum_item ''Amazon DynamoDB'' (PyStr ''Amazon Web Services'') (PyInt 4)
                       (PyInt 2) (PyInt 1000)]"]
      opened_simps base_row_def stored_row_def forum_item_def key_of_def rewritten_def changed_def)
     (simp add: update_forum_def answering_def rejecting_def handle_only_def)

section \<open>Properties: adding and deleting a record\<close>

lemma put_row_length:
  "length (put_row k it rs)
     = (if List.find (\<lambda>row. key_of k row = key_of k it) rs = None then Suc (length rs) else length rs)"
  by (induction rs) auto

lemma put_row_others:
  "filter (\<lambda>row. key_of k row \<noteq> key_of k it) (put_row k it rs)
     = filter (\<lambda>row. key_of k row \<noteq> key_of k it) rs"
  by (induction rs) auto

lemma find_filter_out:
  "List.find (\<lambda>row. key_of k row = key) (filter (\<lambda>row. key_of k row \<noteq> key) rs) = None"
  by (induction rs) auto

lemma filter_absent:
  "List.find (\<lambda>row. key_of k row = key) rs = None \<Longrightarrow> filter (\<lambda>row. key_of k row \<noteq> key) rs = rs"
  by (induction rs) (auto split: if_splits)

lemma key_of_forum_item:
  "key_of ''Name'' (forum_item name category messages threads views) = [(''Name'', PyStr name)]"
  by (simp add: key_of_def forum_item_def)

lemma add_forum_in_memory:
  assumes "table self = Some tn" and "tables (remote self) tn = Some t"
    and "key_name t = ''Name''" and "key_type t = ''S''"
  shows "add_forum in_memory name category messages threads views self
     = (Inr (),
        self\<lparr>remote := (remote self)\<lparr>tables := (tables (remote self))(tn \<mapsto>
                 t\<lparr>rows := put_row ''Name''
                     (forum_item name category messages threads views) (rows t)\<rparr>)\<rparr>\<rparr>)"
  using assms
  by (simp add: add_forum_def in_memory_simps mem_put_item_def valid_item_def forum_item_def)

lemma delete_forum_in_memory:
  assumes "table self = Some tn" and "tables (remote self) tn = Some t"
    and "key_name t = ''Name''" and "key_type t = ''S''"
  shows "delete_forum in_memory name self
     = (Inr (),
        self\<lparr>remote := (remote self)\<lparr>tables := (tables (remote self))(tn \<mapsto>
                 t\<lparr>rows := filter (\<lambda>row. key_of ''Name'' row \<noteq> [(''Name'', PyStr name)])
                              (rows t)\<rparr>)\<rparr>\<rparr>)"
  using assms
  by (simp add: delete_forum_def in_memory_simps mem_delete_item_def valid_key_def)

lemma get_forum_in_memory:
  assumes "table self = Some tn" and "tables (remote self) tn = Some t"
    and "key_name t = ''Name''" and "key_type t = ''S''"
  shows "get_forum in_memory name self
     = (case List.find (\<lambda>row. key_of ''Name'' row = [(''Name'', PyStr name)]) (rows t) of
          None \<Rightarrow> (Inl (KeyError ''Item''), self)
        | Some row \<Rightarrow> (Inr row, self))"
  using assms
  by (simp add: get_forum_def in_memory_simps mem_get_item_def valid_key_def split: option.split)

text \<open>
  C6. Against the in-memory service, with the handle on a table keyed by the string
  attribute \<^verbatim>\<open>Name\<close>: \<^verbatim>\<open>add_forum\<close> raises nothing whether or not a record with
  that name is stored, and \<^verbatim>\<open>get_forum\<close> of the name then returns the five attributes
  just given. A record stored under the name before is replaced (the table is no
  longer), otherwise the table is one record longer; the records under other names
  are what they were.
\<close>

theorem add_forum_then_get_forum:
  assumes "table self = Some tn" and "tables (remote self) tn = Some t"
    and "key_name t = ''Name''" and "key_type t = ''S''"
  shows "fst (add_forum in_memory name category messages threads views self) = Inr ()
       \<and> fst (get_forum in_memory name
                (snd (add_forum in_memory name category messages threads views self)))
           = Inr [(''Name'', PyStr name), (''Category'', category), (''Messages'', messages),
                  (''Threads'', threads), (''Views'', views)]
       \<and> (case tables (remote (snd (add_forum in_memory name category messages threads views self))) tn of
            None \<Rightarrow> False
          | Some t' \<Rightarrow>
              length (rows t')
                = (if List.find (\<lambda>row. key_of ''Name'' row = [(''Name'', PyStr name)]) (rows t) = None
                   then Suc (length (rows t)) else length (rows t))
            \<and> filter (\<lambda>row. key_of ''Name'' row \<noteq> [(''Name'', PyStr name)]) (rows t')
                = filter (\<lambda>row. key_of ''Name'' row \<noteq> [(''Name'', PyStr name)]) (rows t))"
proof -
  let ?it = "forum_item name category messages threads views"
  let ?out = "add_forum in_memory name category messages threads views self"
  have a: "?out = (Inr (),
        self\<lparr>remote := (remote self)\<lparr>tables := (tables (remote self))(tn \<mapsto>
                 t\<lparr>rows := put_row ''Name'' ?it (rows t)\<rparr>)\<rparr>\<rparr>)"
    using assms by (rule add_forum_in_memory)
  have g: "fst (get_forum in_memory name (snd ?out)) = Inr ?it"
    unfolding a using get_forum_after_put_row [OF assms key_of_forum_item] by simp
  have l: "length (put_row ''Name'' ?it (rows t))
             = (if List.find (\<lambda>row. key_of ''Name'' row = [(''Name'', PyStr name)]) (rows t) = None
                then Suc (length (rows t)) else length (rows t))"
    using put_row_length [of "''Name''" ?it "rows t"] by (simp only: key_of_forum_item)
  have f: "filter (\<lambda>row. key_of ''Name'' row \<noteq> [(''Name'', PyStr name)]) (put_row ''Name'' ?it (rows t))
             = filter (\<lambda>row. key_of ''Name'' row \<noteq> [(''Name'', PyStr name)]) (rows t)"
    using put_row_others [of "''Name''" ?it "rows t"] by (simp only: key_of_forum_item)
  show ?thesis
    unfolding g unfolding a using l f by (simp add: forum_item_def)
qed

theorem add_forum_then_get_forum_witness:
  "fst (add_forum in_memory ''SQL server'' (PyStr ''Amazon Web Services'') (PyInt 4) (PyInt 2)
          (PyInt 1000) (opened 0 [[(''Name'', PyStr ''SQL server''), (''Owner'', PyStr ''dba'')]]))
     = Inr ()
 \<and> fst (get_forum in_memory ''SQL server''
          (snd (add_forum in_memory ''SQL server'' (PyStr ''Amazon Web Services'') (PyInt 4)
                  (PyInt 2) (PyInt 1000)
                  (opened 0 [[(''Name'', PyStr ''SQL server''), (''Owner'', PyStr ''dba'')]]))))
     = Inr [(''Name'', PyStr ''SQL server''), (''Category'', PyStr ''Amazon Web Services''),
            (''Messages'', PyInt 4), (''Threads'', PyInt 2), (''Views'', PyInt 1000)]"
  using add_forum_then_get_forum
    [where self = "opened 0 [[(''Name'', PyStr ''SQL server''), (''Owner'', PyStr ''dba'')]]"
       and tn = "''Forum''"
       and t = "forum_table [[(''Name'', PyStr ''SQL server''), (''Owner'', PyStr ''dba'')]]"
       and name = "''SQL server''" and category = "PyStr ''Amazon Web Services''"
       and messages = "PyInt 4" and threads = "PyInt 2" and views = "PyInt 1000"]
  by (simp add: opened_simps)

text \<open>
  C5, as the code has it. Against the in-memory service, with the handle on a table
  keyed by the string attribute \<^verbatim>\<open>Name\<close>: \<^verbatim>\<open>delete_forum\<close> raises nothing and
  logs nothing, whether or not the key is in the table, and leaves the table as it was
  when the key is not there. A second \<^verbatim>\<open>delete_forum\<close> of the same key raises nothing
  and changes nothing. In between, \<^verbatim>\<open>get_forum\<close> of the key finds no record: the
  answer has no \<^verbatim>\<open>Item\<close> and the call raises \<^verbatim>\<open>KeyError('Item')\<close>.
\<close>

theorem delete_forum_of_any_key:
  assumes "table self = Some tn" and "tables (remote self) tn = Some t"
    and "key_name t = ''Name''" and "key_type t = ''S''"
  shows "fst (delete_forum in_memory name self) = Inr ()
       \<and> log (snd (delete_forum in_memory name self)) = log self
       \<and> (List.find (\<lambda>row. key_of ''Name'' row = [(''Name'', PyStr name)]) (rows t) = None \<longrightarrow>
            tables (remote (snd (delete_forum in_memory name self))) tn = Some t)
       \<and> fst (get_forum in_memory name (snd (delete_forum in_memory name self)))
           = Inl (KeyError ''Item'')
       \<and> delete_forum in_memory name (snd (delete_forum in_memory name self))
           = (Inr (), snd (delete_forum in_memory name self))"
proof -
  let ?key = "[(''Name'', PyStr name)]"
  let ?t' = "t\<lparr>rows := filter (\<lambda>row. key_of ''Name'' row \<noteq> ?key) (rows t)\<rparr>"
  let ?self' = "self\<lparr>remote := (remote self)\<lparr>tables := (tables (remote self))(tn \<mapsto> ?t')\<rparr>\<rparr>"
  have d: "delete_forum in_memory name self = (Inr (), ?self')"
    using assms by (rule delete_forum_in_memory)
  have h: "table ?self' = Some tn" "tables (remote ?self') tn = Some ?t'"
    "key_name ?t' = ''Name''" "key_type ?t' = ''S''"
    using assms by simp_all
  have g: "fst (get_forum in_memory name ?self') = Inl (KeyError ''Item'')"
    using get_forum_in_memory [OF h, of name] by (simp add: find_filter_out)
  have d2: "delete_forum in_memory name ?self' = (Inr (), ?self')"
    using delete_forum_in_memory [OF h, of name] by simp
  have n: "List.find (\<lambda>row. key_of ''Name'' row = ?key) (rows t) = None \<longrightarrow> ?t' = t"
    by (simp add: filter_absent)
  show ?thesis
    unfolding d using g d2 n by simp
qed

theorem delete_forum_of_any_key_witness:
  "fst (delete_forum in_memory ''Oracle'' (opened 0 [])) = Inr ()
 \<and> tables (remote (snd (delete_forum in_memory ''Oracle'' (opened 0 [])))) ''Forum''
     = Some (forum_table [])
 \<and> delete_forum in_memory ''Oracle'' (snd (delete_forum in_memory ''Oracle'' (opened 0 [])))
     = (Inr (), snd (delete_forum in_memory ''Oracle'' (opened 0 [])))"
  using delete_forum_of_any_key
    [where self = "opened 0 []" and tn = "''Forum''" and t = "forum_table []" and name = "''Oracle''"]
  by (simp add: opened_simps)

text \<open>
  The counterexample to C5 as stated: reading a record that was just deleted does not
  yield an empty result, it raises.
\<close>

theorem get_forum_after_delete_forum_raises:
  "fst (get_forum in_memory ''SQL server''
          (snd (delete_forum in_memory ''SQL server''
                  (opened 0 [forum_item ''SQL server'' (PyStr ''Amazon Web Services'') (PyInt 4)
                               (PyInt 2) (PyInt 2000)]))))
     = Inl (KeyError ''Item'')"
  by (simp add: delete_forum_in_memory [where tn = "''Forum''"
        and t = "forum_table [forum_item ''SQL server'' (PyStr ''Amazon Web Services'') (PyInt 4)
                               (PyInt 2) (PyInt 2000)]"]
      opened_simps key_of_forum_item get_forum_def in_memory_simps mem_get_item_def valid_key_def)

section \<open>Properties: scanning the table\<close>








text \<open>Three records read in pages of two: two requests, the second with the token of the first answer.\<close>

lemma scan_forums_three_records_two_pages:
  "map_option (\<lambda>(res, self'). (res, scans (remote self')))
     (scan_forums in_memory
           (opened 2 [forum_item ''Amazon DynamoDB'' (PyStr ''Amazon Web Services'') (PyInt 4) (PyInt 2) (PyInt 1000),
                      forum_item ''Amazon S3'' (PyStr ''Amazon Web Services'') (PyInt 1) (PyInt 1) (PyInt 10),
                      forum_item ''SQL server'' (PyStr ''Amazon Web Services'') (PyInt 4) (PyInt 2) (PyInt 1000)]))
   = Some (Inr [forum_item ''Amazon DynamoDB'' (PyStr ''Amazon Web Services'') (PyInt 4) (PyInt 2) (PyInt 1000),
                   forum_item ''Amazon S3'' (PyStr ''Amazon Web Services'') (PyInt 1) (PyInt 1) (PyInt 10),
                   forum_item ''SQL server'' (PyStr ''Amazon Web Services'') (PyInt 4) (PyInt 2) (PyInt 1000)],
           [(None, Some [(''Name'', PyStr ''Amazon S3'')]), (Some [(''Name'', PyStr ''Amazon S3'')], None)])"
  by (simp add: scan_forums_def scan_loop.simps opened_simps in_memory_simps mem_scan_def truthy_def
      key_of_forum_item Let_def)

section \<open>Properties: loading the sample data\<close>

lemma digit_digit_char: "d < 10 \<Longrightarrow> digit (digit_char d) = d"
proof -
  assume "d < 10"
  then have "d = 0 \<or> d = 1 \<or> d = 2 \<or> d = 3 \<or> d = 4 \<or> d = 5 \<or> d = 6 \<or> d = 7 \<or> d = 8 \<or> d = 9"
    by arith
  then show ?thesis
    by (elim disjE) (simp_all add: digit_def digit_char_def)
qed

lemma digit_char_not_sign: "d < 10 \<Longrightarrow> digit_char d \<noteq> CHR ''-'' \<and> digit_char d \<noteq> CHR ''+''"
proof -
  assume "d < 10"
  then have "d = 0 \<or> d = 1 \<or> d = 2 \<or> d = 3 \<or> d = 4 \<or> d = 5 \<or> d = 6 \<or> d = 7 \<or> d = 8 \<or> d = 9"
    by arith
  then show ?thesis
    by (elim disjE) (simp_all add: digit_char_def)
qed

lemma nat_of_digits_snoc: "nat_of_digits (ds @ [c]) = 10 * nat_of_digits ds + digit c"
  by (simp add: nat_of_digits_def)

lemma nat_of_digits_of: "nat_of_digits (digits_of n) = n"
proof (induction n rule: digits_of.induct)
  case (1 n)
  show ?case
  proof (cases "n < 10")
    case True
    then show ?thesis
      by (subst digits_of.simps) (simp add: nat_of_digits_def digit_digit_char)
  next
    case False
    with "1.IH" have "nat_of_digits (digits_of (n div 10)) = n div 10" by simp
    with False show ?thesis
      by (subst digits_of.simps) (simp add: nat_of_digits_snoc digit_digit_char)
  qed
qed

lemma digits_of_head:
  "\<exists>c cs. digits_of n = c # cs \<and> c \<noteq> CHR ''-'' \<and> c \<noteq> CHR ''+''"
proof (induction n rule: digits_of.induct)
  case (1 n)
  show ?case
  proof (cases "n < 10")
    case True
    then show ?thesis
      by (subst digits_of.simps) (simp add: digit_char_not_sign)
  next
    case False
    with "1.IH" obtain c cs where "digits_of (n div 10) = c # cs"
      and "c \<noteq> CHR ''-''" and "c \<noteq> CHR ''+''" by blast
    with False show ?thesis
      by (subst digits_of.simps) simp
  qed
qed

lemma py_int_int_literal: "py_int (int_literal n) = n"
proof (cases "n < 0")
  case True
  then show ?thesis
    by (simp add: int_literal_def py_int_def nat_of_digits_of)
next
  case False
  obtain c cs where d: "digits_of (nat n) = c # cs" and "c \<noteq> CHR ''-''" and "c \<noteq> CHR ''+''"
    using digits_of_head by blast
  with False nat_of_digits_of [of "nat n"] show ?thesis
    by (simp add: int_literal_def py_int_def)
qed

lemma digits_of_small: "n < 10 \<Longrightarrow> digits_of n = [digit_char n]"
  by (subst digits_of.simps) simp

lemma digits_of_big: "10 \<le> n \<Longrightarrow> digits_of n = digits_of (n div 10) @ [digit_char (n mod 10)]"
  by (subst digits_of.simps) simp

lemma int_literal_demo: "int_literal 1000000000000 = ''1000000000000''"
  by (simp add: int_literal_def digits_of_small digits_of_big digit_char_def)







lemma json_load_int_literal:
  "json_load parse_float (JNumber (int_literal n) None None) = PyInt n"
  by (simp add: py_int_int_literal)




end
